theory Spec2Isabelle
  imports Complex_Main
begin

section \<open>JavaScript values\<close>

text \<open>
  The handlers of \<^verbatim>\<open>src/api/components/users/users-controller.js\<close> never compute
  with the values they receive: they read properties, test truthiness (\<^verbatim>\<open>!user\<close>,
  \<^verbatim>\<open>!success\<close>), compare with \<^verbatim>\<open>!==\<close> and pass values on. A value is therefore
  modelled by its shape. A finite number is a rational (every finite double is one; the
  two zeros compare equal and are both falsy, so they are one value here), and
  \<^verbatim>\<open>NaN\<close> and the two infinities are values of their own. An object is the list of its
  own properties, an array the list of its elements.
\<close>

datatype jsval =
    JUndefined
  | JNull
  | JBool bool
  | JNum rat
  | JNaN
  | JInfinity bool
  | JBigInt int
  | JStr string
  | JObj "(string \<times> jsval) list"
  | JArr "jsval list"

text \<open>The falsy values are \<^verbatim>\<open>undefined, null, false, 0, NaN, 0n\<close> and \<^verbatim>\<open>""\<close>.\<close>

fun truthy :: "jsval \<Rightarrow> bool" where
  "truthy JUndefined = False"
| "truthy JNull = False"
| "truthy (JBool b) = b"
| "truthy (JNum q) = (q \<noteq> 0)"
| "truthy JNaN = False"
| "truthy (JInfinity _) = True"
| "truthy (JBigInt i) = (i \<noteq> 0)"
| "truthy (JStr s) = (s \<noteq> [])"
| "truthy (JObj _) = True"
| "truthy (JArr _) = True"

text \<open>
  Strict equality \<^verbatim>\<open>===\<close> of the values held by two different properties or variables.
  Primitives are compared by type and value, and \<^verbatim>\<open>NaN\<close> equals nothing. Objects and
  arrays are compared by reference: the only operands a handler compares are two
  different fields of a parsed request body, each of which the body parser builds as an
  object of its own, and a lookup result against \<^verbatim>\<open>null\<close>; so two objects met by
  \<^verbatim>\<open>===\<close> here are never the same reference.
\<close>

fun strict_eq :: "jsval \<Rightarrow> jsval \<Rightarrow> bool" where
  "strict_eq JUndefined JUndefined = True"
| "strict_eq JNull JNull = True"
| "strict_eq (JBool a) (JBool b) = (a = b)"
| "strict_eq (JNum a) (JNum b) = (a = b)"
| "strict_eq (JInfinity a) (JInfinity b) = (a = b)"
| "strict_eq (JBigInt a) (JBigInt b) = (a = b)"
| "strict_eq (JStr a) (JStr b) = (a = b)"
| "strict_eq _ _ = False"

section \<open>Errors\<close>

datatype errorTypes = UNPROCESSABLE_ENTITY | INVALID_PASSWORD | EMAIL_ALREADY_TAKEN | SERVER

text \<open>
  What a \<^verbatim>\<open>catch\<close> clause can receive: an error built by \<^verbatim>\<open>errorResponder\<close>, the
  \<^verbatim>\<open>TypeError\<close> of reading a property (the one named) of \<^verbatim>\<open>undefined\<close> or
  \<^verbatim>\<open>null\<close>, or any other value that a collaborator throws or rejects with.
\<close>

datatype error =
    TypedError errorTypes string
  | TypeError string
  | Thrown jsval

text \<open>
  Modelled from the spec: \<^verbatim>\<open>errorResponder\<close> and \<^verbatim>\<open>errorTypes\<close> of
  \<^verbatim>\<open>core/errors\<close>, which the controller imports and which are not among the sources.
  The spec: ``TypedError: a (kind, message) pair drawn from a fixed enumeration'',
  ``ErrorResponder: constructs typed error objects from an error-kind enum and a
  message''.
\<close>

definition errorResponder :: "errorTypes \<Rightarrow> string \<Rightarrow> error" where
  "errorResponder kind message = TypedError kind message"

section \<open>Requests, collaborators and the world a handler runs in\<close>

record request =
  params :: jsval
  body :: jsval

text \<open>
  The user service and the password utility are imported by the controller and are
  parameters here. A service function is asynchronous and awaited: the \<^verbatim>\<open>await\<close>
  either yields a value (\<open>Inr\<close>) or throws what the promise rejected with (\<open>Inl\<close>),
  and the call may change the state \<open>'s\<close> that the service owns.
  \<^verbatim>\<open>passwordMatched\<close> is called without \<^verbatim>\<open>await\<close>: what counts is the value the
  call itself returns.
\<close>

record 's collaborators =
  usersService_getUsers :: "'s \<Rightarrow> (error + jsval) \<times> 's"
  usersService_getUser :: "jsval \<Rightarrow> 's \<Rightarrow> (error + jsval) \<times> 's"
  usersService_getUserByEmail :: "jsval \<Rightarrow> 's \<Rightarrow> (error + jsval) \<times> 's"
  usersService_createUser :: "jsval \<Rightarrow> jsval \<Rightarrow> jsval \<Rightarrow> 's \<Rightarrow> (error + jsval) \<times> 's"
  usersService_updateUser :: "jsval \<Rightarrow> jsval \<Rightarrow> jsval \<Rightarrow> 's \<Rightarrow> (error + jsval) \<times> 's"
  usersService_deleteUser :: "jsval \<Rightarrow> 's \<Rightarrow> (error + jsval) \<times> 's"
  usersService_updatePassword :: "jsval \<Rightarrow> jsval \<Rightarrow> 's \<Rightarrow> (error + jsval) \<times> 's"
  passwordMatched :: "jsval \<Rightarrow> jsval \<Rightarrow> error + jsval"

datatype call =
    Call_getUsers
  | Call_getUser jsval
  | Call_getUserByEmail jsval
  | Call_createUser jsval jsval jsval
  | Call_updateUser jsval jsval jsval
  | Call_deleteUser jsval
  | Call_updatePassword jsval jsval

text \<open>
  The world: the state of the service, the service calls made so far, the responses sent
  with \<^verbatim>\<open>response.status(c).json(v)\<close> and the errors passed to \<^verbatim>\<open>next\<close>, each in
  order. The Express objects \<^verbatim>\<open>response\<close> and \<^verbatim>\<open>next\<close> only record what they are
  given.
\<close>

record 's world =
  store :: 's
  calls :: "call list"
  sent :: "(nat \<times> jsval) list"
  forwarded :: "error list"

type_synonym ('s, 'a) step = "'s world \<Rightarrow> (error + 'a) \<times> 's world"

definition throw :: "error \<Rightarrow> ('s, 'a) step" where
  "throw e w = (Inl e, w)"

text \<open>Sequencing of statements: a throw skips the rest of the block.\<close>

definition and_then :: "('s, 'a) step \<Rightarrow> ('a \<Rightarrow> ('s, 'b) step) \<Rightarrow> ('s, 'b) step" where
  "and_then m f w = (case m w of (Inl e, w') \<Rightarrow> (Inl e, w') | (Inr v, w') \<Rightarrow> f v w')"

text \<open>\<^verbatim>\<open>try { m } catch (error) { h(error) }\<close>\<close>

definition try_catch :: "('s, 'a) step \<Rightarrow> (error \<Rightarrow> ('s, 'a) step) \<Rightarrow> ('s, 'a) step" where
  "try_catch m h w = (case m w of (Inl e, w') \<Rightarrow> h e w' | (Inr v, w') \<Rightarrow> (Inr v, w'))"

text \<open>
  Reading property \<open>k\<close> of \<open>v\<close>. The keys the handlers read (\<^verbatim>\<open>id, name, email,
  password, ...\<close>) are not inherited from the prototype of a primitive or of an array, so
  only an object's own properties can give a value.
\<close>

fun get_prop :: "jsval \<Rightarrow> string \<Rightarrow> error + jsval" where
  "get_prop JUndefined k = Inl (TypeError k)"
| "get_prop JNull k = Inl (TypeError k)"
| "get_prop (JObj props) k = Inr (case map_of props k of None \<Rightarrow> JUndefined | Some v \<Rightarrow> v)"
| "get_prop _ k = Inr JUndefined"

definition read_prop :: "jsval \<Rightarrow> string \<Rightarrow> ('s, jsval) step" where
  "read_prop v k w = (get_prop v k, w)"

definition service_call ::
  "call \<Rightarrow> ('s \<Rightarrow> (error + jsval) \<times> 's) \<Rightarrow> ('s, jsval) step" where
  "service_call c f w =
     (case f (store w) of (r, s') \<Rightarrow> (r, w\<lparr>store := s', calls := calls w @ [c]\<rparr>))"

definition response_status_json :: "nat \<Rightarrow> jsval \<Rightarrow> ('s, unit) step" where
  "response_status_json code v w = (Inr (), w\<lparr>sent := sent w @ [(code, v)]\<rparr>)"

definition next_mw :: "error \<Rightarrow> ('s, unit) step" where
  "next_mw e w = (Inr (), w\<lparr>forwarded := forwarded w @ [e]\<rparr>)"

section \<open>The handlers\<close>


definition getUser :: "'s collaborators \<Rightarrow> request \<Rightarrow> ('s, unit) step" where
  "getUser env request =
     try_catch
       (and_then (read_prop (params request) ''id'') (\<lambda>id0.
        and_then (service_call (Call_getUser id0) (usersService_getUser env id0)) (\<lambda>user.
        if \<not> truthy user
        then throw (errorResponder UNPROCESSABLE_ENTITY ''Unknown user'')
        else response_status_json 200 user)))
       next_mw"

definition createUser :: "'s collaborators \<Rightarrow> request \<Rightarrow> ('s, unit) step" where
  "createUser env request =
     try_catch
       (and_then (read_prop (body request) ''name'') (\<lambda>name.
        and_then (read_prop (body request) ''email'') (\<lambda>email.
        and_then (read_prop (body request) ''password'') (\<lambda>password.
        and_then (read_prop (body request) ''password_confirm'') (\<lambda>password_confirm.
        if \<not> strict_eq password password_confirm
        then throw (errorResponder INVALID_PASSWORD
                      ''Failed to create user, password is not same'')
        else
        and_then (service_call (Call_getUserByEmail email)
                    (usersService_getUserByEmail env email)) (\<lambda>user.
        if \<not> strict_eq user JNull
        then throw (errorResponder EMAIL_ALREADY_TAKEN
                      ''Failed to create user, email is already taken'')
        else
        and_then (service_call (Call_createUser name email password)
                    (usersService_createUser env name email password)) (\<lambda>success.
        if \<not> truthy success
        then throw (errorResponder UNPROCESSABLE_ENTITY ''Failed to create user'')
        else response_status_json 200 (JObj [(''name'', name), (''email'', email)]))))))))
       next_mw"

definition updateUser :: "'s collaborators \<Rightarrow> request \<Rightarrow> ('s, unit) step" where
  "updateUser env request =
     try_catch
       (and_then (read_prop (params request) ''id'') (\<lambda>id0.
        and_then (read_prop (body request) ''name'') (\<lambda>name.
        and_then (read_prop (body request) ''email'') (\<lambda>email.
        and_then (service_call (Call_updateUser id0 name email)
                    (usersService_updateUser env id0 name email)) (\<lambda>success.
        if \<not> truthy success
        then throw (errorResponder UNPROCESSABLE_ENTITY ''Failed to update user'')
        else response_status_json 200 (JObj [(''id'', id0)]))))))
       next_mw"

definition deleteUser :: "'s collaborators \<Rightarrow> request \<Rightarrow> ('s, unit) step" where
  "deleteUser env request =
     try_catch
       (and_then (read_prop (params request) ''id'') (\<lambda>id0.
        and_then (service_call (Call_deleteUser id0) (usersService_deleteUser env id0))
          (\<lambda>success.
        if \<not> truthy success
        then throw (errorResponder UNPROCESSABLE_ENTITY ''Failed to delete user'')
        else response_status_json 200 (JObj [(''id'', id0)]))))
       next_mw"

definition call_passwordMatched :: "'s collaborators \<Rightarrow> jsval \<Rightarrow> jsval \<Rightarrow> ('s, jsval) step"
  where
  "call_passwordMatched env password hashed w = (passwordMatched env password hashed, w)"

definition updatePassword :: "'s collaborators \<Rightarrow> request \<Rightarrow> ('s, unit) step" where
  "updatePassword env request =
     try_catch
       (and_then (read_prop (body request) ''password_old'') (\<lambda>password_old.
        and_then (read_prop (body request) ''password_new'') (\<lambda>password_new.
        and_then (read_prop (body request) ''password_new_confirm'') (\<lambda>password_new_confirm.
        if \<not> strict_eq password_new password_new_confirm
        then throw (errorResponder INVALID_PASSWORD
                      ''Failed to update password, new password is not same'')
        else
        and_then (read_prop (params request) ''id'') (\<lambda>id1.
        and_then (service_call (Call_getUser id1) (usersService_getUser env id1)) (\<lambda>user.
        if \<not> truthy user
        then throw (errorResponder UNPROCESSABLE_ENTITY ''Unknown user'')
        else
        and_then (read_prop user ''password'') (\<lambda>user_password.
        and_then (call_passwordMatched env password_old user_password) (\<lambda>isPasswordMatched.
        if \<not> truthy isPasswordMatched
        then throw (errorResponder INVALID_PASSWORD
                      ''Failed to update password, wrong password'')
        else
        and_then (read_prop (params request) ''id'') (\<lambda>id2.
        and_then (service_call (Call_updatePassword id2 password_new)
                    (usersService_updatePassword env id2 password_new))
          (\<lambda>isUpdatePasswordSuccess.
        if \<not> truthy isUpdatePasswordSuccess
        then throw (errorResponder SERVER ''password is not updated, Something is wrong'')
        else
        and_then (read_prop (params request) ''id'') (\<lambda>id3.
        response_status_json 200
          (JObj [(''id'', id3), (''password_new'', password_new),
                 (''message'', JStr ''password was succesfully updated'')]))))))))))))
       next_mw"

section \<open>The user service, as the spec describes it\<close>

text \<open>
  Modelled from the spec: the module \<^verbatim>\<open>users-service\<close> and the functions of
  \<^verbatim>\<open>utils/password\<close>, which the controller imports and which are not among the
  sources. The spec: a user has an ``identifier, name, email, password (hashed)'' and is
  ``owned and mutated exclusively by UserService'', which ``performs the actual
  lookups/mutations against storage''; creation hashes the password (``service is
  responsible for hashing''); the uniqueness of emails is ``enforced by the create-path
  duplicate check, not by a database constraint''; the password utility provides
  ``one-way hashing and verification of credentials''.

  The spec leaves three things open, which are fixed here as follows. The hash function
  is the parameter \<open>hash\<close>. The value a lookup yields when no user matches is the
  parameter \<open>absent\<close>. The stored fields are strings: an operation that is given
  another kind of value for a field changes nothing and reports failure.
\<close>

record user =
  user_id :: string
  user_name :: string
  user_email :: string
  user_password :: string

record users_db =
  users :: "user list"
  next_id :: nat

definition user_object :: "user \<Rightarrow> jsval" where
  "user_object u =
     JObj [(''id'', JStr (user_id u)), (''name'', JStr (user_name u)),
           (''email'', JStr (user_email u)), (''password'', JStr (user_password u))]"

fun str_of :: "jsval \<Rightarrow> string option" where
  "str_of (JStr s) = Some s"
| "str_of _ = None"

fun decimal :: "nat \<Rightarrow> string" where
  "decimal n =
     (if n < 10 then [''0123456789'' ! n]
      else decimal (n div 10) @ [''0123456789'' ! (n mod 10)])"

definition has_id :: "jsval \<Rightarrow> user \<Rightarrow> bool" where
  "has_id i u = (JStr (user_id u) = i)"

definition has_email :: "jsval \<Rightarrow> user \<Rightarrow> bool" where
  "has_email e u = (JStr (user_email u) = e)"

definition found :: "jsval \<Rightarrow> user option \<Rightarrow> jsval" where
  "found absent r = (case r of None \<Rightarrow> absent | Some u \<Rightarrow> user_object u)"

text \<open>
  Modelled from the spec: \<^verbatim>\<open>usersService.getUsers\<close>, ``the full collection''.
\<close>

definition store_getUsers :: "users_db \<Rightarrow> (error + jsval) \<times> users_db" where
  "store_getUsers db = (Inr (JArr (map user_object (users db))), db)"

text \<open>
  Modelled from the spec: \<^verbatim>\<open>usersService.getUser\<close>, the lookup of ``the user matching
  \<^verbatim>\<open>id\<close>''; it changes nothing.
\<close>

definition store_getUser :: "jsval \<Rightarrow> jsval \<Rightarrow> users_db \<Rightarrow> (error + jsval) \<times> users_db" where
  "store_getUser absent i db = (Inr (found absent (find (has_id i) (users db))), db)"

text \<open>
  Modelled from the spec: \<^verbatim>\<open>usersService.getUserByEmail\<close>, the lookup behind ``a user
  with \<^verbatim>\<open>email\<close> already exists''; it changes nothing.
\<close>

definition store_getUserByEmail ::
  "jsval \<Rightarrow> jsval \<Rightarrow> users_db \<Rightarrow> (error + jsval) \<times> users_db" where
  "store_getUserByEmail absent e db = (Inr (found absent (find (has_email e) (users db))), db)"

text \<open>
  Modelled from the spec: \<^verbatim>\<open>usersService.createUser\<close>. It stores a new user under an
  identifier of its own, with the password hashed, and reports success; it checks
  nothing about the email.
\<close>

definition store_createUser ::
  "(string \<Rightarrow> string) \<Rightarrow> jsval \<Rightarrow> jsval \<Rightarrow> jsval \<Rightarrow> users_db \<Rightarrow> (error + jsval) \<times> users_db"
  where
  "store_createUser hash name email password db =
     (case (str_of name, str_of email, str_of password) of
        (Some n, Some e, Some p) \<Rightarrow>
          (Inr (JBool True),
           db\<lparr>users := users db @
                  [\<lparr>user_id = decimal (next_id db), user_name = n, user_email = e,
                    user_password = hash p\<rparr>],
              next_id := Suc (next_id db)\<rparr>)
      | _ \<Rightarrow> (Inr (JBool False), db))"

text \<open>
  Modelled from the spec: \<^verbatim>\<open>usersService.updateUser\<close>. It writes the name and the email
  of the users with the id and reports whether there was one; no constraint of the
  storage stands in the way of an email that another user has.
\<close>

definition store_updateUser ::
  "jsval \<Rightarrow> jsval \<Rightarrow> jsval \<Rightarrow> users_db \<Rightarrow> (error + jsval) \<times> users_db" where
  "store_updateUser i name email db =
     (case (find (has_id i) (users db), str_of name, str_of email) of
        (Some _, Some n, Some e) \<Rightarrow>
          (Inr (JBool True),
           db\<lparr>users := map (\<lambda>u. if has_id i u then u\<lparr>user_name := n, user_email := e\<rparr> else u)
                          (users db)\<rparr>)
      | _ \<Rightarrow> (Inr (JBool False), db))"

text \<open>
  Modelled from the spec: \<^verbatim>\<open>usersService.deleteUser\<close>. It removes the users with the id
  and reports whether there was one.
\<close>

definition store_deleteUser :: "jsval \<Rightarrow> users_db \<Rightarrow> (error + jsval) \<times> users_db" where
  "store_deleteUser i db =
     (case find (has_id i) (users db) of
        Some _ \<Rightarrow> (Inr (JBool True), db\<lparr>users := filter (\<lambda>u. \<not> has_id i u) (users db)\<rparr>)
      | None \<Rightarrow> (Inr (JBool False), db))"

text \<open>
  Modelled from the spec: \<^verbatim>\<open>usersService.updatePassword\<close>. It stores the hash of the
  new password for the users with the id and reports whether there was one.
\<close>

definition store_updatePassword ::
  "(string \<Rightarrow> string) \<Rightarrow> jsval \<Rightarrow> jsval \<Rightarrow> users_db \<Rightarrow> (error + jsval) \<times> users_db" where
  "store_updatePassword hash i password db =
     (case (find (has_id i) (users db), str_of password) of
        (Some _, Some p) \<Rightarrow>
          (Inr (JBool True),
           db\<lparr>users := map (\<lambda>u. if has_id i u then u\<lparr>user_password := hash p\<rparr> else u)
                          (users db)\<rparr>)
      | _ \<Rightarrow> (Inr (JBool False), db))"

text \<open>
  Modelled from the spec: \<^verbatim>\<open>passwordMatched\<close> of \<^verbatim>\<open>utils/password\<close>, the
  ``verification of credentials'': the hash of the password is the stored one.
\<close>

definition store_passwordMatched :: "(string \<Rightarrow> string) \<Rightarrow> jsval \<Rightarrow> jsval \<Rightarrow> error + jsval"
  where
  "store_passwordMatched hash password hashed =
     Inr (JBool (case (str_of password, str_of hashed) of
                   (Some p, Some h) \<Rightarrow> hash p = h
                 | _ \<Rightarrow> False))"

text \<open>
  Modelled from the spec: the collaborators that the controller imports, over this store.
\<close>

definition store_collaborators :: "(string \<Rightarrow> string) \<Rightarrow> jsval \<Rightarrow> users_db collaborators" where
  "store_collaborators hash absent =
     \<lparr>usersService_getUsers = store_getUsers,
      usersService_getUser = store_getUser absent,
      usersService_getUserByEmail = store_getUserByEmail absent,
      usersService_createUser = store_createUser hash,
      usersService_updateUser = store_updateUser,
      usersService_deleteUser = store_deleteUser,
      usersService_updatePassword = store_updatePassword hash,
      passwordMatched = store_passwordMatched hash\<rparr>"

text \<open>The invariant of the spec: no two stored users have the same email.\<close>

definition emails_unique :: "users_db \<Rightarrow> bool" where
  "emails_unique db = distinct (map user_email (users db))"

definition new_world :: "'s \<Rightarrow> 's world" where
  "new_world s = \<lparr>store = s, calls = [], sent = [], forwarded = []\<rparr>"

section \<open>The exported handlers\<close>



section \<open>Concrete data for the examples\<close>

text \<open>
  A store of two users whose passwords are \<^verbatim>\<open>secret\<close> and \<^verbatim>\<open>password\<close>, with string
  reversal standing in for the hash function; and two sets of collaborators over it: one
  whose lookups yield \<^verbatim>\<open>null\<close> when nothing matches, one whose lookups yield
  \<^verbatim>\<open>undefined\<close>.
\<close>

definition ann :: user where
  "ann = \<lparr>user_id = ''1'', user_name = ''Ann'', user_email = ''ann@example.org'',
          user_password = ''terces''\<rparr>"

definition bob :: user where
  "bob = \<lparr>user_id = ''2'', user_name = ''Bob'', user_email = ''bob@example.org'',
          user_password = ''drowssap''\<rparr>"

definition example_db :: users_db where
  "example_db = \<lparr>users = [ann, bob], next_id = 3\<rparr>"

definition null_env :: "users_db collaborators" where
  "null_env = store_collaborators rev JNull"






definition create_request :: "string \<Rightarrow> string \<Rightarrow> jsval \<Rightarrow> jsval \<Rightarrow> request" where
  "create_request name email password password_confirm =
     \<lparr>params = JObj [],
      body = JObj [(''name'', JStr name), (''email'', JStr email), (''password'', password),
                   (''password_confirm'', password_confirm)]\<rparr>"

definition id_request :: "string \<Rightarrow> request" where
  "id_request i = \<lparr>params = JObj [(''id'', JStr i)], body = JObj []\<rparr>"

definition update_request :: "string \<Rightarrow> string \<Rightarrow> string \<Rightarrow> request" where
  "update_request i name email =
     \<lparr>params = JObj [(''id'', JStr i)],
      body = JObj [(''name'', JStr name), (''email'', JStr email)]\<rparr>"

definition password_request :: "string \<Rightarrow> jsval \<Rightarrow> jsval \<Rightarrow> jsval \<Rightarrow> request" where
  "password_request i password_old password_new password_new_confirm =
     \<lparr>params = JObj [(''id'', JStr i)],
      body = JObj [(''password_old'', password_old), (''password_new'', password_new),
                   (''password_new_confirm'', password_new_confirm)]\<rparr>"

section \<open>Unfolding the model\<close>

lemmas step_defs = throw_def and_then_def try_catch_def read_prop_def
  service_call_def response_status_json_def next_mw_def call_passwordMatched_def

lemmas store_defs = store_collaborators_def store_getUsers_def store_getUser_def
  store_getUserByEmail_def store_createUser_def store_updateUser_def store_deleteUser_def
  store_updatePassword_def store_passwordMatched_def found_def has_id_def has_email_def
  user_object_def

lemmas example_defs = ann_def bob_def example_db_def null_env_def create_request_def
  id_request_def update_request_def password_request_def new_world_def


text \<open>A value either has no readable property at all or every key can be read.\<close>

lemma get_prop_other: "get_prop v k = Inr x \<Longrightarrow> \<exists>y. get_prop v k' = Inr y"
  by (cases v) auto

lemma strict_eq_JNull: "strict_eq v JNull = (v = JNull)"
  by (cases v) auto

section \<open>createUser\<close>

text \<open>
  Claim C4. For every createUser request whose \<^verbatim>\<open>password\<close> and
  \<^verbatim>\<open>password_confirm\<close> are not strictly equal, the handler passes INVALID_PASSWORD
  (``Failed to create user, password is not same'') to \<^verbatim>\<open>next\<close> and does nothing else:
  the list of service calls is as before (neither the email lookup nor the creation is
  called), the store is as before (no user is created) and no response is sent.
\<close>

theorem createUser_password_mismatch:
  assumes "get_prop (body request) ''password'' = Inr password"
      and "get_prop (body request) ''password_confirm'' = Inr password_confirm"
      and "\<not> strict_eq password password_confirm"
  shows "createUser env request w =
     (Inr (), w\<lparr>forwarded := forwarded w @
        [errorResponder INVALID_PASSWORD ''Failed to create user, password is not same'']\<rparr>)"
proof -
  obtain name where name: "get_prop (body request) ''name'' = Inr name"
    using get_prop_other [OF assms(1)] by blast
  obtain email where email: "get_prop (body request) ''email'' = Inr email"
    using get_prop_other [OF assms(1)] by blast
  show ?thesis
    using assms name email by (simp add: createUser_def step_defs)
qed

theorem createUser_password_mismatch_witness:
  "get_prop (body (create_request ''Cy'' ''cy@example.org'' (JStr ''secret'') (JStr ''Secret'')))
     ''password'' = Inr (JStr ''secret'') \<and>
   get_prop (body (create_request ''Cy'' ''cy@example.org'' (JStr ''secret'') (JStr ''Secret'')))
     ''password_confirm'' = Inr (JStr ''Secret'') \<and>
   \<not> strict_eq (JStr ''secret'') (JStr ''Secret'') \<and>
   createUser null_env
     (create_request ''Cy'' ''cy@example.org'' (JStr ''secret'') (JStr ''Secret''))
     (new_world example_db) =
     (Inr (), \<lparr>store = example_db, calls = [], sent = [],
              forwarded = [TypedError INVALID_PASSWORD
                             ''Failed to create user, password is not same'']\<rparr>)"
  using createUser_password_mismatch
      [where request = "create_request ''Cy'' ''cy@example.org'' (JStr ''secret'') (JStr ''Secret'')"
         and password = "JStr ''secret''" and password_confirm = "JStr ''Secret''"
         and env = null_env and w = "new_world example_db"]
  by (simp add: create_request_def new_world_def errorResponder_def)

text \<open>
  Claim C7. For every createUser request that passes validation (the two passwords are
  strictly equal and the email lookup yields \<^verbatim>\<open>null\<close>) and whose service creation
  returns a truthy value, the handler sends exactly one response, with status 200 and
  the body \<^verbatim>\<open>{name, email}\<close> built from the \<^verbatim>\<open>name\<close> and \<^verbatim>\<open>email\<close> of the request;
  the body has those two properties and no other, so the password is not in it.
\<close>

theorem createUser_success_body:
  assumes "get_prop (body request) ''name'' = Inr name"
      and "get_prop (body request) ''email'' = Inr email"
      and "get_prop (body request) ''password'' = Inr password"
      and "get_prop (body request) ''password_confirm'' = Inr password_confirm"
      and "strict_eq password password_confirm"
      and "usersService_getUserByEmail env email (store w) = (Inr JNull, sa)"
      and "usersService_createUser env name email password sa = (Inr success, sb)"
      and "truthy success"
  shows "createUser env request w =
     (Inr (), w\<lparr>store := sb,
               calls := calls w @
                 [Call_getUserByEmail email, Call_createUser name email password],
               sent := sent w @ [(200, JObj [(''name'', name), (''email'', email)])]\<rparr>)"
  using assms by (simp add: createUser_def step_defs)

theorem createUser_success_body_witness:
  "strict_eq (JStr ''secret'') (JStr ''secret'') \<and>
   usersService_getUserByEmail null_env (JStr ''cy@example.org'') example_db =
     (Inr JNull, example_db) \<and>
   fst (usersService_createUser null_env (JStr ''Cy'') (JStr ''cy@example.org'')
          (JStr ''secret'') example_db) = Inr (JBool True) \<and>
   truthy (JBool True) \<and>
   createUser null_env
     (create_request ''Cy'' ''cy@example.org'' (JStr ''secret'') (JStr ''secret''))
     (new_world example_db) =
     (Inr (),
      \<lparr>store = \<lparr>users = [ann, bob,
                  \<lparr>user_id = ''3'', user_name = ''Cy'', user_email = ''cy@example.org'',
                   user_password = ''terces''\<rparr>],
                next_id = 4\<rparr>,
       calls = [Call_getUserByEmail (JStr ''cy@example.org''),
                Call_createUser (JStr ''Cy'') (JStr ''cy@example.org'') (JStr ''secret'')],
       sent = [(200, JObj [(''name'', JStr ''Cy''), (''email'', JStr ''cy@example.org'')])],
       forwarded = []\<rparr>)"
  using createUser_success_body
      [where request = "create_request ''Cy'' ''cy@example.org'' (JStr ''secret'') (JStr ''secret'')"
         and name = "JStr ''Cy''" and email = "JStr ''cy@example.org''"
         and password = "JStr ''secret''" and password_confirm = "JStr ''secret''"
         and env = null_env and w = "new_world example_db" and sa = example_db
         and success = "JBool True"
         and sb = "\<lparr>users = [ann, bob,
                  \<lparr>user_id = ''3'', user_name = ''Cy'', user_email = ''cy@example.org'',
                   user_password = ''terces''\<rparr>],
                next_id = 4\<rparr>"]
  by (simp add: store_defs example_defs)




section \<open>updateUser\<close>

text \<open>
  The create path keeps the emails of the modelled store distinct: creation is reached
  only when the lookup has found no user with the email.
\<close>

lemma createUser_keeps_emails_unique:
  assumes "emails_unique (store w)"
  shows "emails_unique (store (snd (createUser (store_collaborators hash JNull) request w)))"
proof -
  have fresh: "e \<notin> set (map user_email us)"
    if "find (has_email v) us = None" and "str_of v = Some e" for v e us
    using that by (cases v) (auto simp: find_None_iff has_email_def)
  show ?thesis
    using assms
    by (auto simp: createUser_def step_defs store_collaborators_def store_getUserByEmail_def
          store_createUser_def found_def user_object_def emails_unique_def strict_eq_JNull
          dest: fresh
        split: sum.splits option.splits jsval.splits)
qed

text \<open>
  Claim C2 fails on the update path. The two users of the example store have different
  emails. The request \<^verbatim>\<open>PUT /users/2\<close> with the body
  \<^verbatim>\<open>{name: "Bob", email: "ann@example.org"}\<close> makes one service call, the update,
  with no lookup by email before it; the handler answers 200 with \<^verbatim>\<open>{id: "2"}\<close>, and
  afterwards both users have the email \<^verbatim>\<open>ann@example.org\<close>.
\<close>

theorem updateUser_duplicates_email:
  "emails_unique example_db \<and>
   updateUser null_env (update_request ''2'' ''Bob'' ''ann@example.org'') (new_world example_db) =
     (Inr (),
      \<lparr>store = \<lparr>users = [ann, bob\<lparr>user_email := ''ann@example.org''\<rparr>], next_id = 3\<rparr>,
       calls = [Call_updateUser (JStr ''2'') (JStr ''Bob'') (JStr ''ann@example.org'')],
       sent = [(200, JObj [(''id'', JStr ''2'')])],
       forwarded = []\<rparr>) \<and>
   \<not> emails_unique \<lparr>users = [ann, bob\<lparr>user_email := ''ann@example.org''\<rparr>], next_id = 3\<rparr>"
  by (simp add: emails_unique_def updateUser_def step_defs store_defs example_defs)

section \<open>getUser and deleteUser\<close>

text \<open>
  Claim C10. For every id for which the service lookup yields a user (a truthy value),
  the handler sends that value itself as the body of the one 200 response: nothing is
  removed from it. Its \<^verbatim>\<open>password\<close> property, which is what \<^verbatim>\<open>updatePassword\<close> reads
  from the same lookup and hands to \<^verbatim>\<open>passwordMatched\<close> as the stored hash, is
  therefore part of the response, unlike in \<^verbatim>\<open>createUser\<close>, which answers with
  \<^verbatim>\<open>{name, email}\<close>.
\<close>

theorem getUser_sends_service_user:
  assumes "get_prop (params request) ''id'' = Inr uid"
      and "usersService_getUser env uid (store w) = (Inr user, sa)"
      and "truthy user"
  shows "getUser env request w =
           (Inr (), w\<lparr>store := sa, calls := calls w @ [Call_getUser uid],
                      sent := sent w @ [(200, user)]\<rparr>) \<and>
         get_prop (snd (last (sent (snd (getUser env request w))))) ''password'' =
           get_prop user ''password''"
  using assms by (simp add: getUser_def step_defs)

theorem getUser_sends_service_user_witness:
  "get_prop (params (id_request ''2'')) ''id'' = Inr (JStr ''2'') \<and>
   usersService_getUser null_env (JStr ''2'') example_db = (Inr (user_object bob), example_db) \<and>
   truthy (user_object bob) \<and>
   getUser null_env (id_request ''2'') (new_world example_db) =
     (Inr (),
      \<lparr>store = example_db, calls = [Call_getUser (JStr ''2'')],
       sent = [(200, JObj [(''id'', JStr ''2''), (''name'', JStr ''Bob''),
                           (''email'', JStr ''bob@example.org''),
                           (''password'', JStr ''drowssap'')])],
       forwarded = []\<rparr>) \<and>
   get_prop (snd (last (sent (snd (getUser null_env (id_request ''2'')
                                     (new_world example_db)))))) ''password'' =
     Inr (JStr ''drowssap'')"
  using getUser_sends_service_user
      [where request = "id_request ''2''" and uid = "JStr ''2''" and env = null_env
         and w = "new_world example_db" and user = "user_object bob" and sa = example_db]
  by (simp add: store_defs example_defs)

lemma find_filter_not: "find P (filter (\<lambda>x. \<not> P x) xs) = None"
  by (induction xs) auto

text \<open>
  Claim C8, on the modelled service with a lookup that yields a falsy value when nothing
  matches. If \<^verbatim>\<open>deleteUser\<close> for an id succeeds, that is, answers 200 with \<^verbatim>\<open>{id}\<close>,
  then \<^verbatim>\<open>getUser\<close> for the same id, run on the world that the deletion left, passes
  UNPROCESSABLE_ENTITY (``Unknown user'') to \<^verbatim>\<open>next\<close> and sends nothing.
\<close>

theorem deleteUser_then_getUser:
  assumes "\<not> truthy absent"
      and "get_prop (params request) ''id'' = Inr uid"
      and "get_prop (params request') ''id'' = Inr uid"
      and "deleteUser (store_collaborators hash absent) request w = (r, w')"
      and "sent w' = sent w @ [(200, JObj [(''id'', uid)])]"
  shows "getUser (store_collaborators hash absent) request' w' =
           (Inr (), w'\<lparr>calls := calls w' @ [Call_getUser uid],
                       forwarded := forwarded w' @
                         [errorResponder UNPROCESSABLE_ENTITY ''Unknown user'']\<rparr>)"
  using assms
  by (auto simp: deleteUser_def getUser_def step_defs store_collaborators_def
        store_deleteUser_def store_getUser_def found_def find_filter_not
      split: option.splits if_splits)

theorem deleteUser_then_getUser_witness:
  "\<not> truthy JNull \<and>
   get_prop (params (id_request ''2'')) ''id'' = Inr (JStr ''2'') \<and>
   deleteUser (store_collaborators rev JNull) (id_request ''2'') (new_world example_db) =
     (Inr (),
      \<lparr>store = \<lparr>users = [ann], next_id = 3\<rparr>, calls = [Call_deleteUser (JStr ''2'')],
       sent = [(200, JObj [(''id'', JStr ''2'')])], forwarded = []\<rparr>) \<and>
   getUser (store_collaborators rev JNull) (id_request ''2'')
     \<lparr>store = \<lparr>users = [ann], next_id = 3\<rparr>, calls = [Call_deleteUser (JStr ''2'')],
      sent = [(200, JObj [(''id'', JStr ''2'')])], forwarded = []\<rparr> =
     (Inr (),
      \<lparr>store = \<lparr>users = [ann], next_id = 3\<rparr>,
       calls = [Call_deleteUser (JStr ''2''), Call_getUser (JStr ''2'')],
       sent = [(200, JObj [(''id'', JStr ''2'')])],
       forwarded = [TypedError UNPROCESSABLE_ENTITY ''Unknown user'']\<rparr>)"
  using deleteUser_then_getUser
      [where absent = JNull and hash = rev and request = "id_request ''2''"
         and request' = "id_request ''2''" and uid = "JStr ''2''"
         and w = "new_world example_db" and r = "Inr ()"
         and w' = "\<lparr>store = \<lparr>users = [ann], next_id = 3\<rparr>,
                    calls = [Call_deleteUser (JStr ''2'')],
                    sent = [(200, JObj [(''id'', JStr ''2'')])], forwarded = []\<rparr>"]
  by (simp add: deleteUser_def step_defs store_defs example_defs errorResponder_def)

section \<open>updatePassword\<close>



text \<open>
  Claim C6. For every updatePassword request that passes all the checks and whose service
  update returns a truthy value, the handler sends exactly one response, with status 200
  and the body \<^verbatim>\<open>{id, password_new, message}\<close>: the id of the route, the new password as
  the request gave it, in the clear, and the message ``password was succesfully
  updated''.
\<close>

theorem updatePassword_success_body:
  assumes "get_prop (body request) ''password_old'' = Inr password_old"
      and "get_prop (body request) ''password_new'' = Inr password_new"
      and "get_prop (body request) ''password_new_confirm'' = Inr password_new_confirm"
      and "strict_eq password_new password_new_confirm"
      and "get_prop (params request) ''id'' = Inr uid"
      and "usersService_getUser env uid (store w) = (Inr user, sa)"
      and "truthy user"
      and "get_prop user ''password'' = Inr stored"
      and "passwordMatched env password_old stored = Inr matched"
      and "truthy matched"
      and "usersService_updatePassword env uid password_new sa = (Inr success, sb)"
      and "truthy success"
  shows "updatePassword env request w =
           (Inr (), w\<lparr>store := sb,
                      calls := calls w @
                        [Call_getUser uid, Call_updatePassword uid password_new],
                      sent := sent w @
                        [(200, JObj [(''id'', uid), (''password_new'', password_new),
                                     (''message'',
                                      JStr ''password was succesfully updated'')])]\<rparr>)"
  using assms by (simp add: updatePassword_def step_defs)

theorem updatePassword_success_body_witness:
  "strict_eq (JStr ''hunter2'') (JStr ''hunter2'') \<and>
   usersService_getUser null_env (JStr ''2'') example_db = (Inr (user_object bob), example_db) \<and>
   truthy (user_object bob) \<and>
   get_prop (user_object bob) ''password'' = Inr (JStr ''drowssap'') \<and>
   passwordMatched null_env (JStr ''password'') (JStr ''drowssap'') = Inr (JBool True) \<and>
   usersService_updatePassword null_env (JStr ''2'') (JStr ''hunter2'') example_db =
     (Inr (JBool True),
      \<lparr>users = [ann, bob\<lparr>user_password := ''2retnuh''\<rparr>], next_id = 3\<rparr>) \<and>
   truthy (JBool True) \<and>
   updatePassword null_env
     (password_request ''2'' (JStr ''password'') (JStr ''hunter2'') (JStr ''hunter2''))
     (new_world example_db) =
     (Inr (),
      \<lparr>store = \<lparr>users = [ann, bob\<lparr>user_password := ''2retnuh''\<rparr>], next_id = 3\<rparr>,
       calls = [Call_getUser (JStr ''2''),
                Call_updatePassword (JStr ''2'') (JStr ''hunter2'')],
       sent = [(200, JObj [(''id'', JStr ''2''), (''password_new'', JStr ''hunter2''),
                           (''message'', JStr ''password was succesfully updated'')])],
       forwarded = []\<rparr>)"
  using updatePassword_success_body
      [where request = "password_request ''2'' (JStr ''password'') (JStr ''hunter2'') (JStr ''hunter2'')"
         and password_old = "JStr ''password''" and password_new = "JStr ''hunter2''"
         and password_new_confirm = "JStr ''hunter2''" and uid = "JStr ''2''"
         and env = null_env and w = "new_world example_db" and user = "user_object bob"
         and sa = example_db and stored = "JStr ''drowssap''" and matched = "JBool True"
         and success = "JBool True"
         and sb = "\<lparr>users = [ann, bob\<lparr>user_password := ''2retnuh''\<rparr>], next_id = 3\<rparr>"]
  by (simp add: store_defs example_defs)

text \<open>
  Claim C5. \<^verbatim>\<open>updatePassword\<close> checks in this order and stops at the first check that
  fails. (1) If the new password and its confirmation are not strictly equal, it passes
  INVALID_PASSWORD to \<^verbatim>\<open>next\<close> with no service call at all, whatever the id, known or
  not. (2) Otherwise it looks the user up, and if the lookup yields a falsy value it
  passes UNPROCESSABLE_ENTITY (``Unknown user''), the lookup being the only call.
  (3) Otherwise, if \<^verbatim>\<open>passwordMatched\<close> returns a falsy value, it passes
  INVALID_PASSWORD (``wrong password''), the lookup still being the only call.
  (4) Otherwise it calls the service update, and if that returns a falsy value it passes
  SERVER.
\<close>

theorem updatePassword_check_order:
  assumes "get_prop (body request) ''password_old'' = Inr password_old"
      and "get_prop (body request) ''password_new'' = Inr password_new"
      and "get_prop (body request) ''password_new_confirm'' = Inr password_new_confirm"
  shows
   "(\<not> strict_eq password_new password_new_confirm \<longrightarrow>
       updatePassword env request w =
         (Inr (), w\<lparr>forwarded := forwarded w @
            [errorResponder INVALID_PASSWORD
               ''Failed to update password, new password is not same'']\<rparr>)) \<and>
    (strict_eq password_new password_new_confirm \<longrightarrow>
     get_prop (params request) ''id'' = Inr uid \<longrightarrow>
     usersService_getUser env uid (store w) = (Inr user, sa) \<longrightarrow>
       (\<not> truthy user \<longrightarrow>
          updatePassword env request w =
            (Inr (), w\<lparr>store := sa, calls := calls w @ [Call_getUser uid],
                forwarded := forwarded w @
                  [errorResponder UNPROCESSABLE_ENTITY ''Unknown user'']\<rparr>)) \<and>
       (truthy user \<longrightarrow>
        get_prop user ''password'' = Inr stored \<longrightarrow>
        passwordMatched env password_old stored = Inr matched \<longrightarrow>
          (\<not> truthy matched \<longrightarrow>
             updatePassword env request w =
               (Inr (), w\<lparr>store := sa, calls := calls w @ [Call_getUser uid],
                   forwarded := forwarded w @
                     [errorResponder INVALID_PASSWORD
                        ''Failed to update password, wrong password'']\<rparr>)) \<and>
          (truthy matched \<longrightarrow>
           usersService_updatePassword env uid password_new sa = (Inr success, sb) \<longrightarrow>
           \<not> truthy success \<longrightarrow>
             updatePassword env request w =
               (Inr (), w\<lparr>store := sb,
                   calls := calls w @
                     [Call_getUser uid, Call_updatePassword uid password_new],
                   forwarded := forwarded w @
                     [errorResponder SERVER
                        ''password is not updated, Something is wrong'']\<rparr>))))"
  using assms by (simp add: updatePassword_def step_defs)

text \<open>
  The four stages on the example store: a mismatch for the unknown id 9; the unknown id 9
  with equal new passwords; a wrong old password for user 2; and for user 2 with the
  right old password a new password that is the number 5, which the modelled service
  refuses to store.
\<close>

theorem updatePassword_check_order_witness:
  "\<not> strict_eq (JStr ''hunter2'') (JStr ''hunter3'') \<and>
   updatePassword null_env
     (password_request ''9'' (JStr ''guess'') (JStr ''hunter2'') (JStr ''hunter3''))
     (new_world example_db) =
     (Inr (),
      \<lparr>store = example_db, calls = [], sent = [],
       forwarded = [TypedError INVALID_PASSWORD
                      ''Failed to update password, new password is not same'']\<rparr>) \<and>
   usersService_getUser null_env (JStr ''9'') example_db = (Inr JNull, example_db) \<and>
   updatePassword null_env
     (password_request ''9'' (JStr ''guess'') (JStr ''hunter2'') (JStr ''hunter2''))
     (new_world example_db) =
     (Inr (),
      \<lparr>store = example_db, calls = [Call_getUser (JStr ''9'')], sent = [],
       forwarded = [TypedError UNPROCESSABLE_ENTITY ''Unknown user'']\<rparr>) \<and>
   passwordMatched null_env (JStr ''guess'') (JStr ''drowssap'') = Inr (JBool False) \<and>
   updatePassword null_env
     (password_request ''2'' (JStr ''guess'') (JStr ''hunter2'') (JStr ''hunter2''))
     (new_world example_db) =
     (Inr (),
      \<lparr>store = example_db, calls = [Call_getUser (JStr ''2'')], sent = [],
       forwarded = [TypedError INVALID_PASSWORD
                      ''Failed to update password, wrong password'']\<rparr>) \<and>
   strict_eq (JNum 5) (JNum 5) \<and>
   passwordMatched null_env (JStr ''password'') (JStr ''drowssap'') = Inr (JBool True) \<and>
   usersService_updatePassword null_env (JStr ''2'') (JNum 5) example_db =
     (Inr (JBool False), example_db) \<and>
   updatePassword null_env
     (password_request ''2'' (JStr ''password'') (JNum 5) (JNum 5))
     (new_world example_db) =
     (Inr (),
      \<lparr>store = example_db,
       calls = [Call_getUser (JStr ''2''), Call_updatePassword (JStr ''2'') (JNum 5)],
       sent = [],
       forwarded = [TypedError SERVER ''password is not updated, Something is wrong'']\<rparr>)"
  using updatePassword_check_order
      [where request = "password_request ''9'' (JStr ''guess'') (JStr ''hunter2'') (JStr ''hunter3'')"
         and password_old = "JStr ''guess''" and password_new = "JStr ''hunter2''"
         and password_new_confirm = "JStr ''hunter3''"
         and env = null_env and w = "new_world example_db"]
    updatePassword_check_order
      [where request = "password_request ''9'' (JStr ''guess'') (JStr ''hunter2'') (JStr ''hunter2'')"
         and password_old = "JStr ''guess''" and password_new = "JStr ''hunter2''"
         and password_new_confirm = "JStr ''hunter2''" and uid = "JStr ''9''"
         and env = null_env and w = "new_world example_db" and user = JNull
         and sa = example_db]
    updatePassword_check_order
      [where request = "password_request ''2'' (JStr ''guess'') (JStr ''hunter2'') (JStr ''hunter2'')"
         and password_old = "JStr ''guess''" and password_new = "JStr ''hunter2''"
         and password_new_confirm = "JStr ''hunter2''" and uid = "JStr ''2''"
         and env = null_env and w = "new_world example_db" and user = "user_object bob"
         and sa = example_db and stored = "JStr ''drowssap''" and matched = "JBool False"]
    updatePassword_check_order
      [where request = "password_request ''2'' (JStr ''password'') (JNum 5) (JNum 5)"
         and password_old = "JStr ''password''" and password_new = "JNum 5"
         and password_new_confirm = "JNum 5" and uid = "JStr ''2''"
         and env = null_env and w = "new_world example_db" and user = "user_object bob"
         and sa = example_db and stored = "JStr ''drowssap''" and matched = "JBool True"
         and success = "JBool False" and sb = example_db]
  by (simp add: store_defs example_defs errorResponder_def)

section \<open>Every handler answers once or forwards the error\<close>










end
